theory Spec2Isabelle
  imports Complex_Main "HOL-Library.AList" "HOL-Library.Sublist" "HOL-Library.Multiset"
begin

section \<open>Python string primitives used by the chunker\<close>

text \<open>
  A Python \<open>str\<close> is modelled as a \<open>string\<close>, one \<open>char\<close> per code point
  (code points 0 to 255). Indices, \<open>chunk_size\<close> and \<open>chunk_overlap\<close> are Python's
  unbounded integers, hence \<open>int\<close>: the cursor of the chunking loop can become negative.
\<close>

text \<open>Normalising one bound of a slice: a negative bound counts from the end, and the
  result is clamped to the range from 0 to the length.\<close>

definition slice_bound :: "nat \<Rightarrow> int \<Rightarrow> nat" where
  "slice_bound n i = (if i < 0 then nat (max 0 (int n + i)) else min n (nat i))"

text \<open>\<open>xs[a:b]\<close> and \<open>xs[a:]\<close>.\<close>

definition py_slice :: "int \<Rightarrow> int \<Rightarrow> 'a list \<Rightarrow> 'a list" where
  "py_slice a b xs =
     (let lo = slice_bound (length xs) a; hi = slice_bound (length xs) b
      in take (hi - lo) (drop lo xs))"

definition py_slice_from :: "int \<Rightarrow> 'a list \<Rightarrow> 'a list" where
  "py_slice_from a xs = drop (slice_bound (length xs) a) xs"

text \<open>\<open>xs[:b]\<close>.\<close>

definition py_slice_to :: "int \<Rightarrow> 'a list \<Rightarrow> 'a list" where
  "py_slice_to b xs = take (slice_bound (length xs) b) xs"

text \<open>\<open>s.rfind(c)\<close> for a one-character needle: the highest index holding \<open>c\<close>, or -1.\<close>

fun rfind :: "'a \<Rightarrow> 'a list \<Rightarrow> int" where
  "rfind c [] = - 1"
| "rfind c (x # xs) =
     (let r = rfind c xs in if 0 \<le> r then r + 1 else if x = c then 0 else - 1)"

text \<open>The characters \<open>str.strip()\<close> removes (those with \<open>str.isspace()\<close>) among the
  code points 0 to 255: tab, line feed, vertical tab, form feed, carriage return, the
  separators 28 to 31, space, next line (133) and no-break space (160).\<close>

definition is_space :: "char \<Rightarrow> bool" where
  "is_space c = (of_char c \<in> {9, 10, 11, 12, 13, 28, 29, 30, 31, 32, 133, 160 :: nat})"

definition strip :: "string \<Rightarrow> string" where
  "strip s = rev (dropWhile is_space (rev (dropWhile is_space s)))"

section \<open>The document processor: general chunking\<close>

record document_processor =
  chunk_size :: int
  chunk_overlap :: int

text \<open>
  The \<open>while start < len(text)\<close> loop of \<open>_chunk_general_text\<close>. The loop can run
  forever, so the model takes fuel: one unit per iteration, \<open>None\<close> when it runs out.
  The arguments are the loop's variables \<open>start\<close> and \<open>chunks\<close>.
\<close>

fun chunk_loop :: "nat \<Rightarrow> int \<Rightarrow> int \<Rightarrow> string \<Rightarrow> int \<Rightarrow> string list \<Rightarrow> string list option" where
  "chunk_loop 0 cs ov text start chunks = None"
| "chunk_loop (Suc fuel) cs ov text start chunks =
     (if start < int (length text) then
        (let en = start + cs in
         if en \<ge> int (length text) then Some (chunks @ [py_slice_from start text])
         else
           (let chunk = py_slice start en text;
                last_period = rfind (CHR ''.'') chunk;
                last_newline = rfind (CHR 0x0A) chunk;
                best_break = max last_period last_newline;
                en' = (if best_break > start + cs div 2 then start + best_break + 1 else en)
            in chunk_loop fuel cs ov text (en' - ov) (chunks @ [py_slice start en' text])))
      else Some chunks)"

text \<open>The list \<open>chunks\<close> as it stands when the loop is left (before trimming); for a text
  of at most \<open>chunk_size\<close> characters, the early return's one-element list.\<close>

definition general_windows :: "nat \<Rightarrow> document_processor \<Rightarrow> string \<Rightarrow> string list option" where
  "general_windows fuel dp text =
     (if int (length text) \<le> chunk_size dp then Some [text]
      else chunk_loop fuel (chunk_size dp) (chunk_overlap dp) text 0 [])"

text \<open>\<open>_chunk_general_text\<close>: the early return for a short text, otherwise the loop and
  the final comprehension \<open>[chunk.strip() for chunk in chunks if chunk.strip()]\<close>.\<close>

definition chunk_general_text :: "nat \<Rightarrow> document_processor \<Rightarrow> string \<Rightarrow> string list option" where
  "chunk_general_text fuel dp text =
     (if int (length text) \<le> chunk_size dp then Some [text]
      else map_option (\<lambda>chunks. map strip (filter (\<lambda>chunk. strip chunk \<noteq> []) chunks))
             (chunk_loop fuel (chunk_size dp) (chunk_overlap dp) text 0 []))"

text \<open>The reading of "concatenating the chunks with the overlap removed": the first
  chunk, followed by every later chunk without its first \<open>chunk_overlap\<close> characters.\<close>

definition join_without_overlap :: "int \<Rightarrow> string list \<Rightarrow> string" where
  "join_without_overlap ov ws =
     (case ws of [] \<Rightarrow> [] | w # rest \<Rightarrow> w @ concat (map (drop (nat ov)) rest))"

section \<open>The document processor: statute and letter chunking\<close>

text \<open>
  The two other modes split the text with the regular-expression library. The library is
  not part of the repository, so its three uses are parameters:
  \<^item> \<open>split_sections text\<close> is \<open>re.split(f'({combined_pattern})', text, flags=re.IGNORECASE)\<close>;
  \<^item> \<open>is_section_marker s\<close> says whether \<open>re.match(combined_pattern, s, re.IGNORECASE)\<close> matches;
  \<^item> \<open>split_paragraphs page\<close> is \<open>re.split(r'\n\s*\d+\.\s+', page)\<close>.
\<close>

record regex_engine =
  split_sections :: "string \<Rightarrow> string list"
  is_section_marker :: "string \<Rightarrow> bool"
  split_paragraphs :: "string \<Rightarrow> string list"

text \<open>The \<open>for section in sections\<close> loop of \<open>_chunk_legal_text\<close>, on the variables
  \<open>chunks\<close> and \<open>current_chunk\<close>; \<open>None\<close> when the general chunking it calls does not return.\<close>

fun legal_loop ::
  "regex_engine \<Rightarrow> nat \<Rightarrow> document_processor \<Rightarrow> string list \<Rightarrow> string list \<Rightarrow> string
     \<Rightarrow> (string list \<times> string) option" where
  "legal_loop re fuel dp [] chunks current_chunk = Some (chunks, current_chunk)"
| "legal_loop re fuel dp (section # rest) chunks current_chunk =
     (if is_section_marker re section then
        legal_loop re fuel dp rest
          (if current_chunk \<noteq> [] then chunks @ [strip current_chunk] else chunks)
          (section @ '' '')
      else
        (let current_chunk = current_chunk @ section in
         if int (length current_chunk) > chunk_size dp * 2 then
           (case chunk_general_text fuel dp current_chunk of
              None \<Rightarrow> None
            | Some sub_chunks \<Rightarrow>
                legal_loop re fuel dp rest (chunks @ butlast sub_chunks)
                  (if sub_chunks \<noteq> [] then last sub_chunks else []))
         else legal_loop re fuel dp rest chunks current_chunk))"

definition chunk_legal_text ::
  "regex_engine \<Rightarrow> nat \<Rightarrow> document_processor \<Rightarrow> string \<Rightarrow> string list option" where
  "chunk_legal_text re fuel dp text =
     (case legal_loop re fuel dp (split_sections re text) [] [] of
        None \<Rightarrow> None
      | Some (chunks, current_chunk) \<Rightarrow>
          Some (filter (\<lambda>chunk. strip chunk \<noteq> [])
                  (if current_chunk \<noteq> [] then chunks @ [strip current_chunk] else chunks)))"

text \<open>\<open>text.split(sep)\<close> for a non-empty separator: \<open>skip\<close> counts the characters of a
  matched separator still to be passed over, \<open>piece\<close> is the piece being collected.\<close>

fun split_on_aux :: "'a list \<Rightarrow> nat \<Rightarrow> 'a list \<Rightarrow> 'a list \<Rightarrow> 'a list list" where
  "split_on_aux sep skip piece [] = [piece]"
| "split_on_aux sep (Suc skip) piece (x # xs) = split_on_aux sep skip piece xs"
| "split_on_aux sep 0 piece (x # xs) =
     (if prefix sep (x # xs) then piece # split_on_aux sep (length sep - 1) [] xs
      else split_on_aux sep 0 (piece @ [x]) xs)"

definition split_on :: "'a list \<Rightarrow> 'a list \<Rightarrow> 'a list list" where
  "split_on sep text = split_on_aux sep 0 [] text"

text \<open>The inner \<open>for paragraph in paragraphs\<close> loop of \<open>_chunk_letter_text\<close>; the result is
  what it appends to \<open>chunks\<close>.\<close>

fun letter_paragraphs :: "nat \<Rightarrow> document_processor \<Rightarrow> string list \<Rightarrow> string list option" where
  "letter_paragraphs fuel dp [] = Some []"
| "letter_paragraphs fuel dp (p # ps) =
     (let paragraph = strip p in
      if paragraph = [] then letter_paragraphs fuel dp ps
      else
        (case (if int (length paragraph) > chunk_size dp
               then chunk_general_text fuel dp paragraph else Some [paragraph]) of
           None \<Rightarrow> None
         | Some sub_chunks \<Rightarrow> map_option ((@) sub_chunks) (letter_paragraphs fuel dp ps)))"

text \<open>The outer \<open>for page in pages\<close> loop.\<close>

fun letter_pages ::
  "regex_engine \<Rightarrow> nat \<Rightarrow> document_processor \<Rightarrow> string list \<Rightarrow> string list option" where
  "letter_pages re fuel dp [] = Some []"
| "letter_pages re fuel dp (page # pages) =
     (if strip page = [] then letter_pages re fuel dp pages
      else
        (case letter_paragraphs fuel dp (split_paragraphs re page) of
           None \<Rightarrow> None
         | Some chunks \<Rightarrow> map_option ((@) chunks) (letter_pages re fuel dp pages)))"

definition chunk_letter_text ::
  "regex_engine \<Rightarrow> nat \<Rightarrow> document_processor \<Rightarrow> string \<Rightarrow> string list option" where
  "chunk_letter_text re fuel dp text = letter_pages re fuel dp (split_on ''--- Page '' text)"

definition apply_chunking_strategy ::
  "regex_engine \<Rightarrow> nat \<Rightarrow> document_processor \<Rightarrow> string \<Rightarrow> string \<Rightarrow> string list option" where
  "apply_chunking_strategy re fuel dp text chunking_mode =
     (if chunking_mode = ''statute'' then chunk_legal_text re fuel dp text
      else if chunking_mode = ''letter'' then chunk_letter_text re fuel dp text
      else chunk_general_text fuel dp text)"

section \<open>The document processor: documents and their ids\<close>

text \<open>Python's \<open>str(i)\<close> for a non-negative integer: its decimal digits.\<close>

fun str_nat :: "nat \<Rightarrow> string" where
  "str_nat n =
     (if n < 10 then [char_of (n + 48)] else str_nat (n div 10) @ [char_of (n mod 10 + 48)])"

declare str_nat.simps [simp del]


datatype meta_value = MStr string | MInt int

type_synonym metadata_dict = "(string \<times> meta_value) list"











section \<open>The database manager\<close>

text \<open>
  The manager's state and the part of the disk it works on, as one record:
  \<^item> \<open>dirs\<close>: the names that exist under \<open>databases_dir\<close>;
  \<^item> \<open>locked\<close>: the names whose removal by \<open>shutil.rmtree\<close> raises;
  \<^item> \<open>corrupt\<close>: the names whose vector store cannot be opened
    (\<open>PersistentClient\<close> or \<open>get_collection\<close> raises);
  \<^item> \<open>active_databases\<close>: the cache of opened databases; a handle is the name of the
    collection it was opened on;
  \<^item> \<open>audit\<close>: the rows of \<open>audit.csv\<close> after the header, oldest first;
  \<^item> \<open>audit_writable\<close>: whether \<open>open(self.audit_file, 'a')\<close> succeeds.
\<close>

datatype py_error = OSError | IndexError | TypeError | QueryFailed

record audit_record =
  timestamp :: string
  action :: string
  audit_database_name :: string
  user :: string
  details :: string

record db_world =
  dirs :: "string set"
  locked :: "string set"
  corrupt :: "string set"
  active_databases :: "string \<rightharpoonup> string"
  audit :: "audit_record list"
  audit_writable :: bool

text \<open>\<open>_log_audit\<close>. \<open>clock k\<close> is the reading of \<open>datetime.now().isoformat()\<close> when the
  log already holds \<open>k\<close> rows.\<close>

definition log_audit ::
  "(nat \<Rightarrow> string) \<Rightarrow> string \<Rightarrow> string \<Rightarrow> string \<Rightarrow> db_world \<Rightarrow> py_error + db_world" where
  "log_audit clock act name det w =
     (if audit_writable w then
        Inr (w\<lparr>audit := audit w @
               [\<lparr>timestamp = clock (length (audit w)), action = act,
                 audit_database_name = name,
                 user = ''local_user'', details = det\<rparr>]\<rparr>)
      else Inl OSError)"

text \<open>\<open>shutil.rmtree(db_path)\<close>.\<close>

definition rmtree :: "string \<Rightarrow> db_world \<Rightarrow> py_error + db_world" where
  "rmtree name w = (if name \<in> locked w then Inl OSError else Inr (w\<lparr>dirs := dirs w - {name}\<rparr>))"

text \<open>
  \<open>delete_database\<close>, statement by statement. The second component is the run: the state
  before the call and the state after each statement that completed, in order.
\<close>

definition delete_database_run ::
  "(nat \<Rightarrow> string) \<Rightarrow> string \<Rightarrow> db_world \<Rightarrow> bool \<times> db_world list" where
  "delete_database_run clock name w0 =
     (let w1 = (if name \<in> dom (active_databases w0)
                then w0\<lparr>active_databases := (active_databases w0)(name := None)\<rparr> else w0)
      in case (if name \<in> dirs w1 then rmtree name w1 else Inr w1) of
           Inl e \<Rightarrow> (False, [w0, w1])
         | Inr w2 \<Rightarrow>
             (case log_audit clock ''DELETE_DATABASE'' name [] w2 of
                Inl e \<Rightarrow> (False, [w0, w1, w2])
              | Inr w3 \<Rightarrow> (True, [w0, w1, w2, w3])))"

text \<open>\<open>delete_database\<close>: the returned flag and the state it leaves.\<close>

definition delete_database :: "(nat \<Rightarrow> string) \<Rightarrow> string \<Rightarrow> db_world \<Rightarrow> bool \<times> db_world" where
  "delete_database clock name w =
     (fst (delete_database_run clock name w), last (snd (delete_database_run clock name w)))"

text \<open>\<open>load_database\<close>: the handle, or \<open>None\<close>.\<close>

definition load_database ::
  "(nat \<Rightarrow> string) \<Rightarrow> string \<Rightarrow> db_world \<Rightarrow> string option \<times> db_world" where
  "load_database clock name w =
     (if name \<in> dom (active_databases w) then (active_databases w name, w)
      else if name \<notin> dirs w then (None, w)
      else if name \<in> corrupt w then (None, w)
      else
        (let w1 = w\<lparr>active_databases := (active_databases w)(name \<mapsto> name)\<rparr>
         in case log_audit clock ''LOAD_DATABASE'' name [] w1 of
              Inl e \<Rightarrow> (None, w1)
            | Inr w2 \<Rightarrow> (Some name, w2)))"

text \<open>
  What \<open>collection.query\<close> returns: the lists under \<open>'documents'\<close>, \<open>'metadatas'\<close> and
  \<open>'distances'\<close>, an absent (\<open>None\<close>) entry being the empty list. A distance is a float,
  here the rational number it denotes: the code only compares distances.
\<close>

record query_result =
  qr_documents :: "string list list"
  qr_metadatas :: "metadata_dict list list"
  qr_distances :: "rat list list"

record hit =
  content :: string
  metadata :: metadata_dict
  distance :: "rat option"
  source_database :: string

text \<open>One \<open>result\<close> dictionary of the formatting loop; an index out of range raises.\<close>

definition format_result :: "string \<Rightarrow> query_result \<Rightarrow> nat \<Rightarrow> string \<Rightarrow> py_error + hit" where
  "format_result db_name qr i doc =
     (case (case qr_metadatas qr of
              [] \<Rightarrow> Inl IndexError
            | m0 # _ \<Rightarrow>
                if m0 \<noteq> [] then (if i < length m0 then Inr (m0 ! i) else Inl IndexError)
                else Inr []) of
        Inl e \<Rightarrow> Inl e
      | Inr md \<Rightarrow>
          (case (case qr_distances qr of
                   [] \<Rightarrow> Inr None
                 | d0 # _ \<Rightarrow> if i < length d0 then Inr (Some (d0 ! i)) else Inl IndexError) of
             Inl e \<Rightarrow> Inl e
           | Inr dv \<Rightarrow>
               Inr \<lparr>content = doc, metadata = md, distance = dv, source_database = db_name\<rparr>))"

text \<open>Running a list of fallible steps in order, up to the first error.\<close>

fun collect_results :: "('e + 'a) list \<Rightarrow> 'e + 'a list" where
  "collect_results [] = Inr []"
| "collect_results (r # rs) =
     (case r of
        Inl e \<Rightarrow> Inl e
      | Inr x \<Rightarrow> (case collect_results rs of Inl e \<Rightarrow> Inl e | Inr xs \<Rightarrow> Inr (x # xs)))"

definition format_results :: "string \<Rightarrow> query_result \<Rightarrow> py_error + hit list" where
  "format_results db_name qr =
     (case qr_documents qr of
        [] \<Rightarrow> Inr []
      | docs0 # _ \<Rightarrow>
          if docs0 \<noteq> []
          then collect_results (map (\<lambda>(i, doc). format_result db_name qr i doc) (enumerate 0 docs0))
          else Inr [])"

text \<open>
  \<open>query_databases\<close>: the loop over \<open>database_names\<close>, on the dictionary \<open>results\<close> (an
  association list in insertion order) and the state. \<open>collection_query h query n\<close> is what the
  vector store answers on the collection of handle \<open>h\<close>, \<open>None\<close> when it raises.
\<close>

fun query_databases_loop ::
  "(string \<Rightarrow> string \<Rightarrow> int \<Rightarrow> query_result option) \<Rightarrow> (nat \<Rightarrow> string) \<Rightarrow> string \<Rightarrow> int
     \<Rightarrow> string list \<Rightarrow> (string \<times> hit list) list \<Rightarrow> db_world
     \<Rightarrow> (string \<times> hit list) list \<times> db_world" where
  "query_databases_loop collection_query clock query n_results [] results w = (results, w)"
| "query_databases_loop collection_query clock query n_results (db_name # rest) results w =
     (case load_database clock db_name w of
        (None, w1) \<Rightarrow> query_databases_loop collection_query clock query n_results rest results w1
      | (Some db, w1) \<Rightarrow>
          (case collection_query db query n_results of
             None \<Rightarrow>
               query_databases_loop collection_query clock query n_results rest
                 (AList.update db_name [] results) w1
           | Some query_results \<Rightarrow>
               (case format_results db_name query_results of
                  Inl e \<Rightarrow>
                    query_databases_loop collection_query clock query n_results rest
                      (AList.update db_name [] results) w1
                | Inr formatted_results \<Rightarrow>
                    (case log_audit clock ''QUERY_DATABASE'' db_name
                            (''Query: '' @ py_slice_to 100 query @ ''...'') w1 of
                       Inl e \<Rightarrow>
                         query_databases_loop collection_query clock query n_results rest
                           (AList.update db_name []
                              (AList.update db_name formatted_results results)) w1
                     | Inr w2 \<Rightarrow>
                         query_databases_loop collection_query clock query n_results rest
                           (AList.update db_name formatted_results results) w2))))"

definition query_databases ::
  "(string \<Rightarrow> string \<Rightarrow> int \<Rightarrow> query_result option) \<Rightarrow> (nat \<Rightarrow> string) \<Rightarrow> string \<Rightarrow> string list
     \<Rightarrow> int \<Rightarrow> db_world \<Rightarrow> (string \<times> hit list) list \<times> db_world" where
  "query_databases collection_query clock query database_names n_results w =
     query_databases_loop collection_query clock query n_results database_names [] w"

section \<open>The retrieval pipeline\<close>

text \<open>
  \<open>all_documents.sort(key=lambda doc: doc.get('distance', 1.0))\<close>. Every hit built by
  \<open>query_databases\<close> has the key \<open>'distance'\<close>, so the default is never taken; the value is
  \<open>None\<close> when the vector store gave no distances. Python's sort is stable; it compares
  every key with another one as soon as the list has two elements, and comparing \<open>None\<close>
  raises \<open>TypeError\<close>.
\<close>

definition sort_by_distance :: "hit list \<Rightarrow> py_error + hit list" where
  "sort_by_distance docs =
     (if length docs < 2 then Inr docs
      else if list_ex (\<lambda>doc. distance doc = None) docs then Inl TypeError
      else Inr (sort_key (\<lambda>doc. the (distance doc)) docs))"

text \<open>The merge of \<open>query_multiple_databases\<close>: \<open>all_documents\<close> collected in the order
  of the dictionary, sorted, and cut to \<open>top_documents = all_documents[:max_chunks]\<close>.\<close>

definition rank_documents :: "(string \<times> hit list) list \<Rightarrow> int \<Rightarrow> py_error + hit list" where
  "rank_documents all_results max_chunks =
     (let all_documents = concat (map snd all_results)
      in case sort_by_distance all_documents of
           Inl e \<Rightarrow> Inl e
         | Inr sorted_documents \<Rightarrow> Inr (py_slice_to max_chunks sorted_documents))"

text \<open>
  Python floats. The confidence is computed in double precision; a double is modelled by
  the rational number it denotes and \<open>rnd\<close> is the rounding of an exact result to the
  nearest double. The literals \<open>0.2\<close>, \<open>0.15\<close> and \<open>0.1\<close> are the roundings of 1/5, 3/20
  and 1/10; \<open>1.0\<close> is exact.
\<close>

definition float_of_nat :: "(rat \<Rightarrow> rat) \<Rightarrow> nat \<Rightarrow> rat" where
  "float_of_nat rnd n = rnd (of_nat n)"

definition fmul :: "(rat \<Rightarrow> rat) \<Rightarrow> rat \<Rightarrow> rat \<Rightarrow> rat" where
  "fmul rnd a b = rnd (a * b)"

definition fadd :: "(rat \<Rightarrow> rat) \<Rightarrow> rat \<Rightarrow> rat \<Rightarrow> rat" where
  "fadd rnd a b = rnd (a + b)"

text \<open>\<open>min(len(documents) * 0.2, 1.0)\<close> and
  \<open>min(len(top_documents) * 0.15 + len(database_names) * 0.1, 1.0)\<close>.\<close>

definition single_confidence :: "(rat \<Rightarrow> rat) \<Rightarrow> nat \<Rightarrow> rat" where
  "single_confidence rnd n_documents = min (fmul rnd (float_of_nat rnd n_documents) (rnd (1 / 5))) 1"

definition multi_confidence :: "(rat \<Rightarrow> rat) \<Rightarrow> nat \<Rightarrow> nat \<Rightarrow> rat" where
  "multi_confidence rnd n_documents n_databases =
     min (fadd rnd (fmul rnd (float_of_nat rnd n_documents) (rnd (3 / 20)))
                   (fmul rnd (float_of_nat rnd n_databases) (rnd (1 / 10)))) 1"

text \<open>
  The dictionary a query returns, without its texts (\<open>'answer'\<close> and \<open>'model_used'\<close> come
  from the generation model): \<open>reply\<close> tells which of the three \<open>return\<close> statements built
  it, \<open>databases_queried\<close> is \<open>None\<close> where the key is absent.
\<close>

datatype reply_kind = NoDocuments | Generated | QueryError

record source_info =
  database :: string
  content_preview :: string
  source_metadata :: metadata_dict

record response =
  reply :: reply_kind
  sources :: "source_info list"
  confidence :: rat
  databases_queried :: "string list option"

definition source_of :: "hit \<Rightarrow> source_info" where
  "source_of doc =
     \<lparr>database = source_database doc,
      content_preview =
        (if length (content doc) > 200 then py_slice_to 200 (content doc) @ ''...''
         else content doc),
      source_metadata = metadata doc\<rparr>"

text \<open>
  \<open>query_multiple_databases\<close>. \<open>generates query docs\<close> says whether formatting the prompt
  for these context documents and running the generator complete without raising. A model
  is taken to be loaded (\<open>self.current_model\<close> is set).
\<close>

definition query_multiple_databases ::
  "(rat \<Rightarrow> rat) \<Rightarrow> (string \<Rightarrow> string \<Rightarrow> int \<Rightarrow> query_result option) \<Rightarrow> (nat \<Rightarrow> string)
     \<Rightarrow> (string \<Rightarrow> hit list \<Rightarrow> bool) \<Rightarrow> int \<Rightarrow> string \<Rightarrow> string list \<Rightarrow> db_world
     \<Rightarrow> response \<times> db_world" where
  "query_multiple_databases rnd collection_query clock generates max_chunks query database_names w =
     (case query_databases collection_query clock query database_names max_chunks w of
        (all_results, w') \<Rightarrow>
          (if concat (map snd all_results) = [] then
             (\<lparr>reply = NoDocuments, sources = [], confidence = 0,
               databases_queried = Some database_names\<rparr>, w')
           else
             (case rank_documents all_results max_chunks of
                Inl e \<Rightarrow>
                  (\<lparr>reply = QueryError, sources = [], confidence = 0,
                    databases_queried = Some database_names\<rparr>, w')
              | Inr top_documents \<Rightarrow>
                  if generates query top_documents then
                    (\<lparr>reply = Generated, sources = map source_of top_documents,
                      confidence = multi_confidence rnd (length top_documents) (length database_names),
                      databases_queried = Some database_names\<rparr>, w')
                  else
                    (\<lparr>reply = QueryError, sources = [], confidence = 0,
                      databases_queried = Some database_names\<rparr>, w'))))"

text \<open>\<open>query_single_database\<close>.\<close>

definition query_single_database ::
  "(rat \<Rightarrow> rat) \<Rightarrow> (string \<Rightarrow> string \<Rightarrow> int \<Rightarrow> query_result option) \<Rightarrow> (nat \<Rightarrow> string)
     \<Rightarrow> (string \<Rightarrow> hit list \<Rightarrow> bool) \<Rightarrow> int \<Rightarrow> string \<Rightarrow> string \<Rightarrow> db_world
     \<Rightarrow> response \<times> db_world" where
  "query_single_database rnd collection_query clock generates max_chunks query database_name w =
     (case query_databases collection_query clock query [database_name] max_chunks w of
        (db_results, w') \<Rightarrow>
          (case map_of db_results database_name of
             None \<Rightarrow>
               (\<lparr>reply = NoDocuments, sources = [], confidence = 0, databases_queried = None\<rparr>, w')
           | Some documents \<Rightarrow>
               if documents = [] then
                 (\<lparr>reply = NoDocuments, sources = [], confidence = 0, databases_queried = None\<rparr>, w')
               else if generates query documents then
                 (\<lparr>reply = Generated, sources = map source_of documents,
                   confidence = single_confidence rnd (length documents),
                   databases_queried = Some [database_name]\<rparr>, w')
               else
                 (\<lparr>reply = QueryError, sources = [], confidence = 0, databases_queried = None\<rparr>, w')))"

section \<open>Example states and inputs\<close>

text \<open>Concrete inputs on which the theorems below are instantiated: a store with the two
  databases \<open>alpha\<close> and \<open>beta\<close>, of which only \<open>alpha\<close> answers queries; a clock; the
  hit lists of two databases; a regular-expression engine that never splits; a text file.\<close>

definition example_world :: db_world where
  "example_world =
     \<lparr>dirs = {''alpha'', ''beta''}, locked = {}, corrupt = {}, active_databases = Map.empty,
      audit = [], audit_writable = True\<rparr>"

definition example_clock :: "nat \<Rightarrow> string" where
  "example_clock k = ''2024-01-01T00:00:0'' @ str_nat k"

definition example_store :: "string \<Rightarrow> string \<Rightarrow> int \<Rightarrow> query_result option" where
  "example_store db query n =
     (if db = ''alpha''
      then Some \<lparr>qr_documents = [[''first'', ''second'']], qr_metadatas = [[[], []]],
                 qr_distances = [[1 / 4, 1 / 2]]\<rparr>
      else None)"

text \<open>The audit row that \<open>delete_database\<close> writes for \<open>name\<close> from state \<open>w\<close>.\<close>

definition delete_record :: "(nat \<Rightarrow> string) \<Rightarrow> string \<Rightarrow> db_world \<Rightarrow> audit_record" where
  "delete_record clock name w =
     \<lparr>timestamp = clock (length (audit w)), action = ''DELETE_DATABASE'',
      audit_database_name = name, user = ''local_user'', details = []\<rparr>"

definition example_results :: "(string \<times> hit list) list" where
  "example_results =
     [(''beta'',
       [\<lparr>content = ''b1'', metadata = [], distance = Some (1 / 2), source_database = ''beta''\<rparr>,
        \<lparr>content = ''b2'', metadata = [], distance = Some (3 / 4), source_database = ''beta''\<rparr>]),
      (''alpha'',
       [\<lparr>content = ''a1'', metadata = [], distance = Some (1 / 4), source_database = ''alpha''\<rparr>,
        \<lparr>content = ''a2'', metadata = [], distance = Some (1 / 2), source_database = ''alpha''\<rparr>])]"



text \<open>Replies of the pipeline over the example store, with exact arithmetic for the
  floats, at most five chunks per query and a generator that always answers.\<close>

definition example_single_reply :: "string \<Rightarrow> response" where
  "example_single_reply name =
     fst (query_single_database (\<lambda>x. x) example_store example_clock (\<lambda>q docs. True) 5 ''q''
            name example_world)"

definition example_multi_reply :: "string list \<Rightarrow> response" where
  "example_multi_reply names =
     fst (query_multiple_databases (\<lambda>x. x) example_store example_clock (\<lambda>q docs. True) 5 ''q''
            names example_world)"

section \<open>Facts about the string primitives\<close>

lemma rfind_lower: "- 1 \<le> rfind c xs"
  by (induction xs) (auto simp: Let_def)

lemma rfind_upper: "rfind c xs < int (length xs)"
  by (induction xs) (auto simp: Let_def)

lemma py_slice_inner:
  "0 \<le> a \<Longrightarrow> a \<le> b \<Longrightarrow> b \<le> int (length xs) \<Longrightarrow>
   py_slice a b xs = take (nat (b - a)) (drop (nat a) xs)"
  by (simp add: py_slice_def slice_bound_def Let_def min_def nat_diff_distrib)

lemma py_slice_from_inner:
  "0 \<le> a \<Longrightarrow> py_slice_from a xs = drop (nat a) xs"
  by (simp add: py_slice_from_def slice_bound_def min_def)

lemma join_snoc:
  "acc \<noteq> [] \<Longrightarrow>
   join_without_overlap ov (acc @ [w]) = join_without_overlap ov acc @ drop (nat ov) w"
  by (cases acc) (simp_all add: join_without_overlap_def)

lemma join_single: "join_without_overlap ov [w] = w"
  by (simp add: join_without_overlap_def)

lemma take_extend:
  "i \<le> j \<Longrightarrow> take i xs @ take (j - i) (drop i xs) = take j xs"
  by (metis le_add_diff_inverse take_add)

lemma length_strip_le: "length (strip s) \<le> length s"
proof -
  have "length (strip s) \<le> length (dropWhile is_space s)"
    unfolding strip_def by (metis length_dropWhile_le length_rev)
  also have "\<dots> \<le> length s" by (rule length_dropWhile_le)
  finally show ?thesis .
qed

section \<open>General chunking: coverage, lengths, termination\<close>

text \<open>
  The loop invariant. At the head of the loop, either nothing has been cut yet, or the
  windows cut so far, joined without their overlaps, are the text up to the end of the last
  window (\<open>start + chunk_overlap\<close>). With \<open>chunk_overlap \<le> chunk_size div 2 + 1\<close> every
  cut lies more than \<open>chunk_overlap\<close> characters after the cursor, so the cursor grows by
  at least one and \<open>length text + 1\<close> iterations suffice.
\<close>

lemma chunk_loop_covers:
  assumes ov0: "0 \<le> ov" and ovcs: "ov < cs" and ovhalf: "ov \<le> cs div 2 + 1"
  shows "0 \<le> s \<Longrightarrow> int (length text) < s + int fuel \<Longrightarrow>
         (acc = [] \<and> s = 0) \<or>
         (acc \<noteq> [] \<and> join_without_overlap ov acc = take (nat (s + ov)) text
            \<and> s + ov \<le> int (length text)) \<Longrightarrow>
         \<forall>w\<in>set acc. int (length w) \<le> cs \<Longrightarrow>
         \<exists>ws. chunk_loop fuel cs ov text s acc = Some ws
            \<and> join_without_overlap ov ws = text
            \<and> (\<forall>w\<in>set ws. int (length w) \<le> cs)"
proof (induction fuel arbitrary: s acc)
  case 0
  then show ?case using ov0 by auto
next
  case (Suc fuel)
  let ?n = "int (length text)"
  note inv = Suc.prems(3) and lens = Suc.prems(4) and s0 = Suc.prems(1)
  show ?case
  proof (cases "s < ?n")
    case False
    with inv ov0 have "join_without_overlap ov acc = text"
      by (auto simp: join_without_overlap_def)
    with False lens show ?thesis by simp
  next
    case inside: True
    show ?thesis
    proof (cases "?n \<le> s + cs")
      case True
      have "join_without_overlap ov (acc @ [drop (nat s) text]) = text"
      proof (cases "acc = []")
        case True
        with inv ov0 have "s = 0" by auto
        with True show ?thesis by (simp add: join_single)
      next
        case False
        with inv have j: "join_without_overlap ov acc = take (nat (s + ov)) text" by auto
        have "drop (nat ov) (drop (nat s) text) = drop (nat (s + ov)) text"
          using s0 ov0 by (simp add: nat_add_distrib add.commute)
        with False j show ?thesis by (simp add: join_snoc)
      qed
      moreover have "int (length (drop (nat s) text)) \<le> cs"
        using True s0 inside by simp
      ultimately show ?thesis
        using inside True lens s0 by (simp add: py_slice_from_inner)
    next
      case False
      define chunk where "chunk = py_slice s (s + cs) text"
      define bb where "bb = max (rfind (CHR ''.'') chunk) (rfind (CHR 0x0A) chunk)"
      define en where "en = (if bb > s + cs div 2 then s + bb + 1 else s + cs)"
      have cs0: "0 \<le> cs" using ov0 ovcs by simp
      have chunk_eq: "chunk = take (nat cs) (drop (nat s) text)"
        unfolding chunk_def using s0 cs0 False by (simp add: py_slice_inner)
      have len_chunk: "int (length chunk) = cs"
        unfolding chunk_eq using s0 cs0 False by simp
      have bb_hi: "bb < cs"
        unfolding bb_def using rfind_upper[of "CHR ''.''" chunk] rfind_upper[of "CHR 0x0A" chunk] len_chunk
        by simp
      have en_hi: "en \<le> s + cs" unfolding en_def using bb_hi by simp
      have en_lo: "s + ov < en" unfolding en_def using ovcs ovhalf s0 by simp
      have step: "chunk_loop (Suc fuel) cs ov text s acc =
                  chunk_loop fuel cs ov text (en - ov) (acc @ [py_slice s en text])"
        using inside False by (simp add: Let_def chunk_def bb_def en_def)
      have w_eq: "py_slice s en text = take (nat (en - s)) (drop (nat s) text)"
        using s0 en_lo en_hi False ov0 by (simp add: py_slice_inner)
      have w_len: "int (length (py_slice s en text)) \<le> cs"
      proof -
        have "length (py_slice s en text) \<le> nat (en - s)"
          unfolding w_eq by simp
        then have "int (length (py_slice s en text)) \<le> int (nat (en - s))"
          by (rule iffD2[OF of_nat_le_iff])
        also have "\<dots> = en - s" using en_lo ov0 by simp
        also have "\<dots> \<le> cs" using en_hi by simp
        finally show ?thesis .
      qed
      have inv': "acc @ [py_slice s en text] \<noteq> [] \<and>
                  join_without_overlap ov (acc @ [py_slice s en text]) = take (nat (en - ov + ov)) text \<and>
                  en - ov + ov \<le> ?n"
      proof (cases "acc = []")
        case True
        with inv ov0 have "s = 0" by auto
        with True w_eq en_hi False show ?thesis by (simp add: join_single)
      next
        case nonempty: False
        with inv have j: "join_without_overlap ov acc = take (nat (s + ov)) text" by auto
        have "drop (nat ov) (take (nat (en - s)) (drop (nat s) text))
              = take (nat en - nat (s + ov)) (drop (nat (s + ov)) text)"
          using s0 ov0 en_lo by (simp add: drop_take nat_diff_distrib nat_add_distrib add.commute)
        moreover have "nat (s + ov) \<le> nat en" using en_lo by simp
        ultimately have "take (nat (s + ov)) text @ drop (nat ov) (py_slice s en text) = take (nat en) text"
          unfolding w_eq by (simp add: take_extend)
        with nonempty j en_hi False show ?thesis by (simp add: join_snoc)
      qed
      have "\<exists>ws. chunk_loop fuel cs ov text (en - ov) (acc @ [py_slice s en text]) = Some ws
            \<and> join_without_overlap ov ws = text \<and> (\<forall>w\<in>set ws. int (length w) \<le> cs)"
      proof (rule Suc.IH)
        show "0 \<le> en - ov" using en_lo s0 by simp
        show "?n < en - ov + int fuel" using Suc.prems(2) en_lo by simp
        show "(acc @ [py_slice s en text] = [] \<and> en - ov = 0) \<or>
              (acc @ [py_slice s en text] \<noteq> [] \<and>
               join_without_overlap ov (acc @ [py_slice s en text]) = take (nat (en - ov + ov)) text \<and>
               en - ov + ov \<le> ?n)"
          using inv' by blast
        show "\<forall>w\<in>set (acc @ [py_slice s en text]). int (length w) \<le> cs"
          using lens w_len by auto
      qed
      with step show ?thesis by simp
    qed
  qed
qed

text \<open>The result of the loop does not depend on the fuel, once there is enough of it.\<close>

lemma chunk_loop_more_fuel:
  "chunk_loop fuel cs ov text s acc = Some ws \<Longrightarrow>
   chunk_loop (fuel + k) cs ov text s acc = Some ws"
proof (induction fuel arbitrary: s acc)
  case 0
  then show ?case by simp
next
  case (Suc fuel)
  then show ?case
    by (simp add: Let_def split: if_splits)
qed

lemma chunk_loop_fuel_independent:
  assumes "chunk_loop m cs ov text s acc = Some ws" and "chunk_loop n cs ov text s acc = Some ws'"
  shows "ws = ws'"
proof -
  have "chunk_loop (m + n) cs ov text s acc = Some ws"
    using assms(1) by (rule chunk_loop_more_fuel)
  moreover have "chunk_loop (n + m) cs ov text s acc = Some ws'"
    using assms(2) by (rule chunk_loop_more_fuel)
  ultimately show ?thesis by (simp add: add.commute)
qed

text \<open>
  Claim C1, as amended. For every text longer than \<open>chunk_size\<close> and every configuration
  with \<open>0 \<le> chunk_overlap < chunk_size\<close> and \<open>chunk_overlap \<le> chunk_size div 2 + 1\<close>,
  general chunking returns within \<open>length text + 1\<close> iterations; the windows it cuts, before
  they are trimmed, give back the original text when they are concatenated with the first
  \<open>chunk_overlap\<close> characters of every window after the first removed; the chunks returned
  are these windows, trimmed and with the blank ones left out; and every returned chunk,
  the final one included, has at most \<open>chunk_size\<close> characters.
\<close>

theorem general_chunking_reconstructs:
  assumes "0 \<le> chunk_overlap dp" and "chunk_overlap dp < chunk_size dp"
    and "chunk_overlap dp \<le> chunk_size dp div 2 + 1"
    and "chunk_size dp < int (length text)"
    and "length text < fuel"
  shows "\<exists>ws out. general_windows fuel dp text = Some ws
           \<and> chunk_general_text fuel dp text = Some out
           \<and> join_without_overlap (chunk_overlap dp) ws = text
           \<and> out = map strip (filter (\<lambda>w. strip w \<noteq> []) ws)
           \<and> (\<forall>c\<in>set out. int (length c) \<le> chunk_size dp)"
proof -
  have long: "\<not> int (length text) \<le> chunk_size dp"
    using assms(4) by simp
  have "\<exists>ws. chunk_loop fuel (chunk_size dp) (chunk_overlap dp) text 0 [] = Some ws
          \<and> join_without_overlap (chunk_overlap dp) ws = text
          \<and> (\<forall>w\<in>set ws. int (length w) \<le> chunk_size dp)"
    using assms(1,2,3,5) by (intro chunk_loop_covers) simp_all
  then obtain ws where ws: "chunk_loop fuel (chunk_size dp) (chunk_overlap dp) text 0 [] = Some ws"
    and j: "join_without_overlap (chunk_overlap dp) ws = text"
    and l: "\<forall>w\<in>set ws. int (length w) \<le> chunk_size dp"
    by blast
  have "int (length (strip w)) \<le> chunk_size dp" if "w \<in> set ws" for w
  proof -
    have "int (length (strip w)) \<le> int (length w)"
      using length_strip_le[of w] by simp
    with l that show ?thesis by fastforce
  qed
  with long ws j show ?thesis
    by (simp add: general_windows_def chunk_general_text_def)
qed

text \<open>Witness for C1: \<open>chunk_size = 10\<close>, \<open>chunk_overlap = 2\<close> on a text of 30 characters
  with two sentence breaks; the first window is cut at its full stop.\<close>

theorem general_chunking_reconstructs_witness:
  "0 \<le> chunk_overlap \<lparr>chunk_size = 10, chunk_overlap = 2\<rparr>
   \<and> chunk_overlap \<lparr>chunk_size = 10, chunk_overlap = 2\<rparr> < chunk_size \<lparr>chunk_size = 10, chunk_overlap = 2\<rparr>
   \<and> chunk_overlap \<lparr>chunk_size = 10, chunk_overlap = 2\<rparr>
        \<le> chunk_size \<lparr>chunk_size = 10, chunk_overlap = 2\<rparr> div 2 + 1
   \<and> chunk_size \<lparr>chunk_size = 10, chunk_overlap = 2\<rparr> < int (length ''abcdef.hijk lmnopq. rstuvwxyz'')
   \<and> length ''abcdef.hijk lmnopq. rstuvwxyz'' < 31
   \<and> general_windows 31 \<lparr>chunk_size = 10, chunk_overlap = 2\<rparr> ''abcdef.hijk lmnopq. rstuvwxyz''
        = Some [''abcdef.'', ''f.hijk lmn'', ''mnopq. rst'', ''stuvwxyz'']
   \<and> join_without_overlap 2 [''abcdef.'', ''f.hijk lmn'', ''mnopq. rst'', ''stuvwxyz'']
        = ''abcdef.hijk lmnopq. rstuvwxyz''
   \<and> (\<exists>ws out. general_windows 31 \<lparr>chunk_size = 10, chunk_overlap = 2\<rparr> ''abcdef.hijk lmnopq. rstuvwxyz'' = Some ws
           \<and> chunk_general_text 31 \<lparr>chunk_size = 10, chunk_overlap = 2\<rparr> ''abcdef.hijk lmnopq. rstuvwxyz'' = Some out
           \<and> join_without_overlap 2 ws = ''abcdef.hijk lmnopq. rstuvwxyz''
           \<and> out = map strip (filter (\<lambda>w. strip w \<noteq> []) ws)
           \<and> (\<forall>c\<in>set out. int (length c) \<le> 10))"
proof -
  have w: "general_windows 31 \<lparr>chunk_size = 10, chunk_overlap = 2\<rparr> ''abcdef.hijk lmnopq. rstuvwxyz''
        = Some [''abcdef.'', ''f.hijk lmn'', ''mnopq. rst'', ''stuvwxyz'']"
    by code_simp
  have j: "join_without_overlap 2 [''abcdef.'', ''f.hijk lmn'', ''mnopq. rst'', ''stuvwxyz'']
        = ''abcdef.hijk lmnopq. rstuvwxyz''"
    by code_simp
  show ?thesis
    using general_chunking_reconstructs[of "\<lparr>chunk_size = 10, chunk_overlap = 2\<rparr>"
        "''abcdef.hijk lmnopq. rstuvwxyz''" 31] w j
    by simp
qed

text \<open>
  Counterexample to C1 as stated: with \<open>chunk_size = 4\<close> and \<open>chunk_overlap = 0\<close> the text
  \<open>ab  cd\<close> is cut into the windows \<open>ab  \<close> and \<open>cd\<close>; the chunks returned are trimmed, and
  their concatenation has lost the two spaces.
\<close>

theorem general_chunking_trims_counterexample:
  "chunk_general_text 7 \<lparr>chunk_size = 4, chunk_overlap = 0\<rparr> ''ab  cd'' = Some [''ab'', ''cd'']
   \<and> join_without_overlap 0 [''ab'', ''cd''] \<noteq> ''ab  cd''"
  by code_simp

text \<open>
  Claim C9 at a failing input: \<open>chunk_size = 100\<close>, \<open>chunk_overlap = 99\<close> (so
  \<open>chunk_overlap < chunk_size\<close>) and a text of 101 characters whose only full stop is at
  index 98. The first window is cut after the full stop, at 99, and the cursor is set to
  \<open>99 - 99 = 0\<close> again: the loop repeats its first iteration for ever, whatever the fuel.
\<close>

theorem general_chunking_diverges:
  "chunk_general_text fuel \<lparr>chunk_size = 100, chunk_overlap = 99\<rparr>
     ''aaaaaaaaaaaaaaaaaaaaaaaaaaaaaaaaaaaaaaaaaaaaaaaaaaaaaaaaaaaaaaaaaaaaaaaaaaaaaaaaaaaaaaaaaaaaaaaaaa.bc''
   = None"
proof -
  have "chunk_loop n 100 99
          ''aaaaaaaaaaaaaaaaaaaaaaaaaaaaaaaaaaaaaaaaaaaaaaaaaaaaaaaaaaaaaaaaaaaaaaaaaaaaaaaaaaaaaaaaaaaaaaaaaa.bc''
          0 acc = None" for n acc
    by (induction n arbitrary: acc) (simp_all add: py_slice_def slice_bound_def)
  then show ?thesis
    by (simp add: chunk_general_text_def)
qed

text \<open>
  Claim C4 at a failing input: \<open>chunk_size = 10\<close>, \<open>chunk_overlap = 0\<close>. The second window
  starts at 10 and holds \<open>bbbbbbb.bb\<close>: its last full stop is at window offset 7, beyond the
  midpoint 5, yet the window is cut at the hard boundary, because the code compares the
  offset with \<open>start + chunk_size // 2 = 15\<close>.
\<close>

theorem sentence_break_ignored_in_second_window:
  "general_windows 5 \<lparr>chunk_size = 10, chunk_overlap = 0\<rparr> ''aaaaaaaaaabbbbbbb.bbccc''
     = Some [''aaaaaaaaaa'', ''bbbbbbb.bb'', ''ccc'']
   \<and> rfind (CHR ''.'') (py_slice 10 20 ''aaaaaaaaaabbbbbbb.bbccc'') = 7
   \<and> (7 :: int) > chunk_size \<lparr>chunk_size = 10, chunk_overlap = 0\<rparr> div 2"
  by code_simp

text \<open>
  Claim C8 at failing inputs: in general mode, with the default configuration, the empty
  text comes back as one empty chunk and a text of two spaces as one chunk of two spaces,
  which trimming would empty.
\<close>

theorem short_text_returned_untrimmed:
  "apply_chunking_strategy re fuel \<lparr>chunk_size = 1000, chunk_overlap = 200\<rparr> [] ''general''
     = Some [[]]
   \<and> apply_chunking_strategy re fuel \<lparr>chunk_size = 1000, chunk_overlap = 200\<rparr> ''  '' ''general''
     = Some [''  '']
   \<and> strip ''  '' = []"
  by (simp add: apply_chunking_strategy_def chunk_general_text_def strip_def is_space_def)

section \<open>The database manager: deletion and the audit log\<close>




text \<open>
  Claim C10. When no database called \<open>name\<close> exists on disk or in the cache (and the audit
  file can be appended to), \<open>delete_database(name)\<close> returns \<open>True\<close> and its only effect is
  one more \<open>DELETE_DATABASE\<close> record for \<open>name\<close> in the audit log.
\<close>

theorem delete_unknown_database_succeeds:
  "name \<notin> dirs w \<Longrightarrow> name \<notin> dom (active_databases w) \<Longrightarrow> audit_writable w \<Longrightarrow>
   delete_database clock name w = (True, w\<lparr>audit := audit w @ [delete_record clock name w]\<rparr>)"
  by (simp add: delete_database_run_def delete_database_def log_audit_def delete_record_def)

text \<open>Witness for C10: deleting \<open>gamma\<close>, which the example store does not hold.\<close>

theorem delete_unknown_database_succeeds_witness:
  "''gamma'' \<notin> dirs example_world \<and> ''gamma'' \<notin> dom (active_databases example_world)
   \<and> audit_writable example_world
   \<and> delete_database example_clock ''gamma'' example_world
       = (True, example_world\<lparr>audit := [delete_record example_clock ''gamma'' example_world]\<rparr>)"
proof -
  have h: "''gamma'' \<notin> dirs example_world" "''gamma'' \<notin> dom (active_databases example_world)"
    "audit_writable example_world"
    by (simp_all add: example_world_def)
  have "audit example_world = []" by (simp add: example_world_def)
  with h delete_unknown_database_succeeds [OF h, of example_clock] show ?thesis by simp
qed

section \<open>The database manager: querying several databases\<close>

text \<open>
  Claim C5 at a failing input: the query names \<open>missing\<close> (no such database), \<open>beta\<close> (it
  opens, its vector store raises on the query) and \<open>alpha\<close> (it answers two hits). The
  loop goes on after each failure, and \<open>beta\<close> gets the empty list from the \<open>except\<close>
  branch; but \<open>missing\<close>, which failed to open, is left out of the dictionary by the
  \<open>continue\<close>.
\<close>

theorem unopened_database_has_no_entry:
  "fst (query_databases example_store example_clock ''q'' [''missing'', ''beta'', ''alpha''] 5
          example_world)
     = [(''beta'', []),
        (''alpha'',
         [\<lparr>content = ''first'', metadata = [], distance = Some (1 / 4),
            source_database = ''alpha''\<rparr>,
          \<lparr>content = ''second'', metadata = [], distance = Some (1 / 2),
            source_database = ''alpha''\<rparr>])]
   \<and> map_of (fst (query_databases example_store example_clock ''q''
                     [''missing'', ''beta'', ''alpha''] 5 example_world)) ''missing'' = None"
  by (simp add: query_databases_def load_database_def log_audit_def example_world_def
        example_store_def format_results_def format_result_def enumerate_eq_zip)

section \<open>The retrieval pipeline: merging the hits of several databases\<close>

lemma sort_key_short: "length xs < 2 \<Longrightarrow> sort_key f xs = xs"
  by (cases xs; cases "tl xs") auto

lemma sort_by_distance_total:
  assumes "\<forall>doc\<in>set docs. distance doc \<noteq> None"
  shows "sort_by_distance docs = Inr (sort_key (\<lambda>doc. the (distance doc)) docs)"
  using assms by (auto simp: sort_by_distance_def sort_key_short list_ex_iff)

lemma py_slice_to_take: "0 \<le> b \<Longrightarrow> py_slice_to b xs = take (nat b) xs"
  by (simp add: py_slice_to_def slice_bound_def min_def)

lemma sorted_map_take: "sorted (map f xs) \<Longrightarrow> sorted (map f (take n xs))"
  by (metis sorted_wrt_take take_map)

text \<open>
  Claim C2. When every hit carries a distance and \<open>max_chunks_per_query\<close> is not negative,
  the merge of \<open>query_multiple_databases\<close> returns the first \<open>max_chunks\<close> elements of a list
  \<open>merged\<close> that holds exactly the collected hits, is sorted by non-decreasing distance, and
  keeps hits of equal distance in the order in which they were collected (database by
  database, in the order of the dictionary). So the result is sorted and has at most
  \<open>max_chunks\<close> elements.
\<close>

theorem merged_hits_sorted_stable_truncated:
  assumes "\<forall>doc\<in>set (concat (map snd all_results)). distance doc \<noteq> None"
    and "0 \<le> max_chunks"
  shows "\<exists>merged top_docs. rank_documents all_results max_chunks = Inr top_docs
      \<and> top_docs = take (nat max_chunks) merged
      \<and> mset merged = mset (concat (map snd all_results))
      \<and> sorted (map (\<lambda>doc. the (distance doc)) merged)
      \<and> (\<forall>k. filter (\<lambda>doc. the (distance doc) = k) merged
              = filter (\<lambda>doc. the (distance doc) = k) (concat (map snd all_results)))
      \<and> sorted (map (\<lambda>doc. the (distance doc)) top_docs)
      \<and> int (length top_docs) \<le> max_chunks"
proof -
  let ?all = "concat (map snd all_results)"
  let ?key = "\<lambda>doc. the (distance doc)"
  let ?merged = "sort_key ?key ?all"
  have r: "rank_documents all_results max_chunks = Inr (take (nat max_chunks) ?merged)"
    using assms by (simp add: rank_documents_def sort_by_distance_total py_slice_to_take)
  have s: "sorted (map ?key ?merged)" by (rule sorted_sort_key)
  have st: "filter (\<lambda>doc. ?key doc = k) ?merged = filter (\<lambda>doc. ?key doc = k) ?all" for k
    by (rule sort_key_stable)
  have l: "int (length (take (nat max_chunks) ?merged)) \<le> max_chunks"
    using assms(2) by simp
  show ?thesis
    using r s st l sorted_map_take[OF s, of "nat max_chunks"]
    by (intro exI[of _ ?merged] exI[of _ "take (nat max_chunks) ?merged"]) simp
qed

text \<open>Witness for C2: two databases with two hits each, one tie at distance 1/2 (the hit
  of \<open>beta\<close>, collected first, stays first), cut to three.\<close>

theorem merged_hits_sorted_stable_truncated_witness:
  "map distance (concat (map snd example_results))
     = [Some (1 / 2), Some (3 / 4), Some (1 / 4), Some (1 / 2)]
   \<and> (0 :: int) \<le> 3
   \<and> map content (projr (rank_documents example_results 3)) = [''a1'', ''b1'', ''a2'']
   \<and> (\<exists>merged top_docs. rank_documents example_results 3 = Inr top_docs
        \<and> top_docs = take (nat 3) merged
        \<and> mset merged = mset (concat (map snd example_results))
        \<and> sorted (map (\<lambda>doc. the (distance doc)) merged)
        \<and> (\<forall>k. filter (\<lambda>doc. the (distance doc) = k) merged
                = filter (\<lambda>doc. the (distance doc) = k) (concat (map snd example_results)))
        \<and> sorted (map (\<lambda>doc. the (distance doc)) top_docs)
        \<and> int (length top_docs) \<le> 3)"
proof -
  have h: "\<forall>doc\<in>set (concat (map snd example_results)). distance doc \<noteq> None"
    by (simp add: example_results_def del: not_None_eq)
  have e: "map content (projr (rank_documents example_results 3)) = [''a1'', ''b1'', ''a2'']"
    by (simp add: rank_documents_def sort_by_distance_def py_slice_to_def slice_bound_def
          example_results_def)
  have d: "map distance (concat (map snd example_results))
             = [Some (1 / 2), Some (3 / 4), Some (1 / 4), Some (1 / 2)]"
    by (simp add: example_results_def)
  show ?thesis
    using d e merged_hits_sorted_stable_truncated [OF h, of 3] by simp
qed

section \<open>The document processor: chunk ids\<close>













section \<open>The retrieval pipeline: the confidence value\<close>

text \<open>The facts about rounding that are used: it is monotone and maps 0 to 0, as
  rounding to the nearest double does.\<close>

lemma rnd_nonneg:
  assumes "mono rnd" and "rnd 0 = 0" and "0 \<le> x"
  shows "0 \<le> rnd (x :: rat)"
proof -
  have "rnd 0 \<le> rnd x" using assms(1,3) by (rule monoD)
  then show ?thesis using assms(2) by simp
qed

lemma float_of_nat_nonneg:
  assumes "mono rnd" and "rnd 0 = 0"
  shows "0 \<le> float_of_nat rnd n"
  unfolding float_of_nat_def using assms by (rule rnd_nonneg) simp

lemma float_of_nat_mono:
  assumes "mono rnd" and "m \<le> n"
  shows "float_of_nat rnd m \<le> float_of_nat rnd n"
  unfolding float_of_nat_def using assms(1) by (rule monoD) (simp add: assms(2))

lemma fmul_nonneg:
  assumes "mono rnd" and "rnd 0 = 0" and "0 \<le> a" and "0 \<le> b"
  shows "0 \<le> fmul rnd a b"
  unfolding fmul_def using assms(1,2) by (rule rnd_nonneg) (simp add: assms(3,4))

lemma fmul_mono:
  assumes "mono rnd" and "a \<le> a'" and "0 \<le> b"
  shows "fmul rnd a b \<le> fmul rnd a' b"
  unfolding fmul_def using assms(1) by (rule monoD) (simp add: assms(2,3) mult_right_mono)

lemma fadd_nonneg:
  assumes "mono rnd" and "rnd 0 = 0" and "0 \<le> a" and "0 \<le> b"
  shows "0 \<le> fadd rnd a b"
  unfolding fadd_def using assms(1,2) by (rule rnd_nonneg) (simp add: assms(3,4))

lemma fadd_mono:
  assumes "mono rnd" and "a \<le> a'" and "b \<le> b'"
  shows "fadd rnd a b \<le> fadd rnd a' b'"
  unfolding fadd_def using assms(1) by (rule monoD) (simp add: assms(2,3) add_mono)

lemma literal_nonneg:
  assumes "mono rnd" and "rnd 0 = 0"
  shows "0 \<le> rnd (1 / 5 :: rat)" and "0 \<le> rnd (3 / 20 :: rat)" and "0 \<le> rnd (1 / 10 :: rat)"
proof -
  show "0 \<le> rnd (1 / 5 :: rat)" using assms by (rule rnd_nonneg) simp
  show "0 \<le> rnd (3 / 20 :: rat)" using assms by (rule rnd_nonneg) simp
  show "0 \<le> rnd (1 / 10 :: rat)" using assms by (rule rnd_nonneg) simp
qed

lemma single_confidence_range:
  assumes "mono rnd" and "rnd 0 = 0"
  shows "0 \<le> single_confidence rnd n \<and> single_confidence rnd n \<le> 1"
proof -
  have "0 \<le> fmul rnd (float_of_nat rnd n) (rnd (1 / 5))"
    using assms float_of_nat_nonneg[OF assms] literal_nonneg(1)[OF assms] by (rule fmul_nonneg)
  then show ?thesis by (simp add: single_confidence_def)
qed

lemma single_confidence_zero: "rnd 0 = 0 \<Longrightarrow> single_confidence rnd 0 = 0"
  by (simp add: single_confidence_def fmul_def float_of_nat_def)

lemma single_confidence_mono:
  assumes "mono rnd" and "rnd 0 = 0" and "m \<le> n"
  shows "single_confidence rnd m \<le> single_confidence rnd n"
proof -
  have "float_of_nat rnd m \<le> float_of_nat rnd n"
    using assms(1,3) by (rule float_of_nat_mono)
  with assms(1)
  have "fmul rnd (float_of_nat rnd m) (rnd (1 / 5)) \<le> fmul rnd (float_of_nat rnd n) (rnd (1 / 5))"
    using literal_nonneg(1)[OF assms(1,2)] by (rule fmul_mono)
  then show ?thesis
    unfolding single_confidence_def by (rule min.mono) simp
qed

lemma multi_confidence_range:
  assumes "mono rnd" and "rnd 0 = 0"
  shows "0 \<le> multi_confidence rnd h d \<and> multi_confidence rnd h d \<le> 1"
proof -
  have a: "0 \<le> fmul rnd (float_of_nat rnd h) (rnd (3 / 20))"
    using assms float_of_nat_nonneg[OF assms] literal_nonneg(2)[OF assms] by (rule fmul_nonneg)
  have b: "0 \<le> fmul rnd (float_of_nat rnd d) (rnd (1 / 10))"
    using assms float_of_nat_nonneg[OF assms] literal_nonneg(3)[OF assms] by (rule fmul_nonneg)
  have "0 \<le> fadd rnd (fmul rnd (float_of_nat rnd h) (rnd (3 / 20)))
                     (fmul rnd (float_of_nat rnd d) (rnd (1 / 10)))"
    using assms a b by (rule fadd_nonneg)
  then show ?thesis by (simp add: multi_confidence_def)
qed

lemma multi_confidence_mono:
  assumes "mono rnd" and "rnd 0 = 0" and "h \<le> h'" and "d \<le> d'"
  shows "multi_confidence rnd h d \<le> multi_confidence rnd h' d'"
proof -
  have a: "fmul rnd (float_of_nat rnd h) (rnd (3 / 20)) \<le> fmul rnd (float_of_nat rnd h') (rnd (3 / 20))"
    using assms(1) float_of_nat_mono[OF assms(1,3)] literal_nonneg(2)[OF assms(1,2)]
    by (rule fmul_mono)
  have b: "fmul rnd (float_of_nat rnd d) (rnd (1 / 10)) \<le> fmul rnd (float_of_nat rnd d') (rnd (1 / 10))"
    using assms(1) float_of_nat_mono[OF assms(1,4)] literal_nonneg(3)[OF assms(1,2)]
    by (rule fmul_mono)
  have "fadd rnd (fmul rnd (float_of_nat rnd h) (rnd (3 / 20)))
                 (fmul rnd (float_of_nat rnd d) (rnd (1 / 10)))
      \<le> fadd rnd (fmul rnd (float_of_nat rnd h') (rnd (3 / 20)))
                 (fmul rnd (float_of_nat rnd d') (rnd (1 / 10)))"
    using assms(1) a b by (rule fadd_mono)
  then show ?thesis
    unfolding multi_confidence_def by (rule min.mono) simp
qed

lemma sort_by_distance_length: "sort_by_distance docs = Inr s \<Longrightarrow> length s = length docs"
  by (auto simp: sort_by_distance_def split: if_splits)

lemma rank_documents_nonempty:
  assumes "concat (map snd all_results) \<noteq> []" and "1 \<le> max_chunks"
    and "rank_documents all_results max_chunks = Inr top_docs"
  shows "top_docs \<noteq> []"
proof -
  from assms(3) obtain s where s: "sort_by_distance (concat (map snd all_results)) = Inr s"
    and t: "top_docs = py_slice_to max_chunks s"
    by (auto simp: rank_documents_def Let_def split: sum.splits)
  from s assms(1) have "s \<noteq> []"
    using sort_by_distance_length by fastforce
  with t assms(2) show ?thesis
    by (simp add: py_slice_to_take)
qed

lemma multi_response_confidence:
  assumes "1 \<le> max_chunks"
    and "r = fst (query_multiple_databases rnd store clock gen max_chunks q names w)"
  shows "(sources r = [] \<and> confidence r = 0 \<and> reply r \<noteq> Generated)
       \<or> (sources r \<noteq> [] \<and> reply r = Generated
          \<and> confidence r = multi_confidence rnd (length (sources r)) (length names))"
proof -
  obtain all_results w' where q: "query_databases store clock q names max_chunks w = (all_results, w')"
    by (cases "query_databases store clock q names max_chunks w")
  show ?thesis
  proof (cases "concat (map snd all_results) = []")
    case True
    with q assms(2) show ?thesis by (simp add: query_multiple_databases_def)
  next
    case nonempty: False
    show ?thesis
    proof (cases "rank_documents all_results max_chunks")
      case (Inl e)
      with q nonempty assms(2) show ?thesis by (simp add: query_multiple_databases_def)
    next
      case (Inr top_docs)
      have "top_docs \<noteq> []"
        using nonempty assms(1) Inr by (rule rank_documents_nonempty)
      with q nonempty Inr assms(2) show ?thesis
        by (cases "gen q top_docs") (simp_all add: query_multiple_databases_def)
    qed
  qed
qed

lemma single_response_confidence:
  assumes "rnd 0 = 0"
    and "r = fst (query_single_database rnd store clock gen max_chunks q name w)"
  shows "confidence r = single_confidence rnd (length (sources r))"
proof -
  obtain db_results w' where q: "query_databases store clock q [name] max_chunks w = (db_results, w')"
    by (cases "query_databases store clock q [name] max_chunks w")
  show ?thesis
  proof (cases "map_of db_results name")
    case None
    with q assms show ?thesis
      by (simp add: query_single_database_def single_confidence_zero)
  next
    case (Some documents)
    with q assms show ?thesis
      by (cases "documents = []"; cases "gen q documents")
         (simp_all add: query_single_database_def single_confidence_zero)
  qed
qed

text \<open>
  Claim C7, as amended. For \<open>max_chunks_per_query \<ge> 1\<close> (and rounding that is monotone and
  keeps 0), the confidence of every reply is in [0, 1]; the single-database confidence is
  \<open>min(hit_count \<times> 0.2, 1.0)\<close>; the multi-database confidence is
  \<open>min(hit_count \<times> 0.15 + database_count \<times> 0.1, 1.0)\<close> when the reply has at least one
  source and 0 when it has none; and between any two replies the confidence does not
  decrease when neither the hit count nor the number of queried databases decreases. The
  hit count is the number of sources of the reply.
\<close>

theorem confidence_bounded_and_monotone:
  assumes "mono rnd" and "rnd 0 = 0" and "1 \<le> max1" and "1 \<le> max2"
    and "s1 = fst (query_single_database rnd store1 clock1 gen1 max1 q1 name1 w1)"
    and "s2 = fst (query_single_database rnd store2 clock2 gen2 max2 q2 name2 w2)"
    and "r1 = fst (query_multiple_databases rnd store1 clock1 gen1 max1 q1 names1 w1)"
    and "r2 = fst (query_multiple_databases rnd store2 clock2 gen2 max2 q2 names2 w2)"
  shows "0 \<le> confidence s1 \<and> confidence s1 \<le> 1
       \<and> 0 \<le> confidence r1 \<and> confidence r1 \<le> 1
       \<and> confidence s1 = single_confidence rnd (length (sources s1))
       \<and> confidence r1 = (if sources r1 = [] then 0
                          else multi_confidence rnd (length (sources r1)) (length names1))
       \<and> (length (sources s1) \<le> length (sources s2) \<longrightarrow> confidence s1 \<le> confidence s2)
       \<and> (length (sources r1) \<le> length (sources r2) \<and> length names1 \<le> length names2
            \<longrightarrow> confidence r1 \<le> confidence r2)"
proof -
  note sr = single_confidence_range[OF assms(1,2)]
  note mr = multi_confidence_range[OF assms(1,2)]
  have c1: "confidence s1 = single_confidence rnd (length (sources s1))"
    using assms(2,5) by (rule single_response_confidence)
  have c2: "confidence s2 = single_confidence rnd (length (sources s2))"
    using assms(2,6) by (rule single_response_confidence)
  have m1: "(sources r1 = [] \<and> confidence r1 = 0 \<and> reply r1 \<noteq> Generated)
       \<or> (sources r1 \<noteq> [] \<and> reply r1 = Generated
          \<and> confidence r1 = multi_confidence rnd (length (sources r1)) (length names1))"
    using assms(3,7) by (rule multi_response_confidence)
  have m2: "(sources r2 = [] \<and> confidence r2 = 0 \<and> reply r2 \<noteq> Generated)
       \<or> (sources r2 \<noteq> [] \<and> reply r2 = Generated
          \<and> confidence r2 = multi_confidence rnd (length (sources r2)) (length names2))"
    using assms(4,8) by (rule multi_response_confidence)
  have a: "0 \<le> confidence s1 \<and> confidence s1 \<le> 1" using c1 sr by simp
  have b: "0 \<le> confidence r1 \<and> confidence r1 \<le> 1" using m1 mr by auto
  have b2: "0 \<le> confidence r2" using m2 mr by auto
  have c: "confidence r1 = (if sources r1 = [] then 0
                          else multi_confidence rnd (length (sources r1)) (length names1))"
    using m1 by auto
  have d: "length (sources s1) \<le> length (sources s2) \<longrightarrow> confidence s1 \<le> confidence s2"
    using c1 c2 single_confidence_mono[OF assms(1,2)] by simp
  have e: "length (sources r1) \<le> length (sources r2) \<and> length names1 \<le> length names2
            \<longrightarrow> confidence r1 \<le> confidence r2"
  proof (cases "sources r1 = []")
    case True
    with m1 b2 show ?thesis by auto
  next
    case False
    show ?thesis
    proof (intro impI, elim conjE)
      assume l: "length (sources r1) \<le> length (sources r2)" and n: "length names1 \<le> length names2"
      from False l have "sources r2 \<noteq> []" by auto
      with m2 have "confidence r2 = multi_confidence rnd (length (sources r2)) (length names2)"
        by auto
      moreover from False m1
      have "confidence r1 = multi_confidence rnd (length (sources r1)) (length names1)"
        by auto
      ultimately show "confidence r1 \<le> confidence r2"
        using multi_confidence_mono[OF assms(1,2) l n] by simp
    qed
  qed
  from a b c1 c d e show ?thesis by blast
qed

lemma example_query_alpha:
  "fst (query_databases example_store example_clock ''q'' [''alpha''] 5 example_world)
     = [(''alpha'',
         [\<lparr>content = ''first'', metadata = [], distance = Some (1 / 4),
            source_database = ''alpha''\<rparr>,
          \<lparr>content = ''second'', metadata = [], distance = Some (1 / 2),
            source_database = ''alpha''\<rparr>])]"
  by (simp add: query_databases_def load_database_def log_audit_def example_world_def
        example_store_def format_results_def format_result_def enumerate_eq_zip)

lemma example_query_alpha_beta:
  "fst (query_databases example_store example_clock ''q'' [''alpha'', ''beta''] 5 example_world)
     = [(''alpha'',
         [\<lparr>content = ''first'', metadata = [], distance = Some (1 / 4),
            source_database = ''alpha''\<rparr>,
          \<lparr>content = ''second'', metadata = [], distance = Some (1 / 2),
            source_database = ''alpha''\<rparr>]),
        (''beta'', [])]"
  by (simp add: query_databases_def load_database_def log_audit_def example_world_def
        example_store_def format_results_def format_result_def enumerate_eq_zip)

lemma example_query_beta_missing:
  "fst (query_databases example_store example_clock ''q'' [''beta'', ''missing''] 5 example_world)
     = [(''beta'', [])]"
  by (simp add: query_databases_def load_database_def log_audit_def example_world_def
        example_store_def format_results_def format_result_def enumerate_eq_zip)

lemma example_single_alpha:
  "confidence (example_single_reply ''alpha'') = 2 / 5
   \<and> length (sources (example_single_reply ''alpha'')) = 2"
  using example_query_alpha
  by (simp add: example_single_reply_def query_single_database_def single_confidence_def
        fmul_def float_of_nat_def case_prod_beta)

lemma example_multi_alpha:
  "confidence (example_multi_reply [''alpha'']) = 2 / 5
   \<and> length (sources (example_multi_reply [''alpha''])) = 2"
  using example_query_alpha
  by (simp add: example_multi_reply_def query_multiple_databases_def rank_documents_def
        sort_by_distance_def py_slice_to_def slice_bound_def multi_confidence_def
        fmul_def fadd_def float_of_nat_def case_prod_beta)

lemma example_multi_alpha_beta:
  "confidence (example_multi_reply [''alpha'', ''beta'']) = 1 / 2
   \<and> length (sources (example_multi_reply [''alpha'', ''beta''])) = 2"
  using example_query_alpha_beta
  by (simp add: example_multi_reply_def query_multiple_databases_def rank_documents_def
        sort_by_distance_def py_slice_to_def slice_bound_def multi_confidence_def
        fmul_def fadd_def float_of_nat_def case_prod_beta)

text \<open>Witness for C7: one database with two hits, queried alone (single and multi) and
  together with a database that gives no hit; exact arithmetic stands for the rounding.\<close>

theorem confidence_bounded_and_monotone_witness:
  "mono (\<lambda>x :: rat. x) \<and> (1 :: int) \<le> 5
   \<and> length (sources (example_single_reply ''alpha''))
        \<le> length (sources (example_single_reply ''alpha''))
   \<and> length (sources (example_multi_reply [''alpha'']))
        \<le> length (sources (example_multi_reply [''alpha'', ''beta'']))
   \<and> length [''alpha''] \<le> length [''alpha'', ''beta'']
   \<and> confidence (example_single_reply ''alpha'') = 2 / 5
   \<and> confidence (example_multi_reply [''alpha'']) = 2 / 5
   \<and> confidence (example_multi_reply [''alpha'', ''beta'']) = 1 / 2
   \<and> 0 \<le> confidence (example_multi_reply [''alpha''])
   \<and> confidence (example_multi_reply [''alpha'']) \<le> 1
   \<and> confidence (example_multi_reply [''alpha''])
        \<le> confidence (example_multi_reply [''alpha'', ''beta''])
   \<and> confidence (example_multi_reply [''alpha''])
        = multi_confidence (\<lambda>x. x) (length (sources (example_multi_reply [''alpha''])))
            (length [''alpha''])"
proof -
  have m: "mono (\<lambda>x :: rat. x)" by (simp add: mono_def)
  have s: "sources (example_multi_reply [''alpha'']) \<noteq> []"
    using example_multi_alpha by auto
  note t = confidence_bounded_and_monotone
    [where rnd = "\<lambda>x. x" and ?max1.0 = 5 and ?max2.0 = 5
       and ?store1.0 = example_store and ?store2.0 = example_store
       and ?clock1.0 = example_clock and ?clock2.0 = example_clock
       and ?gen1.0 = "\<lambda>q docs. True" and ?gen2.0 = "\<lambda>q docs. True"
       and ?q1.0 = "''q''" and ?q2.0 = "''q''"
       and ?name1.0 = "''alpha''" and ?name2.0 = "''alpha''"
       and ?names1.0 = "[''alpha'']" and ?names2.0 = "[''alpha'', ''beta'']"
       and ?w1.0 = example_world and ?w2.0 = example_world
       and ?s1.0 = "example_single_reply ''alpha''" and ?s2.0 = "example_single_reply ''alpha''"
       and ?r1.0 = "example_multi_reply [''alpha'']"
       and ?r2.0 = "example_multi_reply [''alpha'', ''beta'']",
     OF m _ _ _ example_single_reply_def example_single_reply_def
       example_multi_reply_def example_multi_reply_def]
  from t s example_single_alpha example_multi_alpha example_multi_alpha_beta m
  show ?thesis
    by (simp add: single_confidence_def multi_confidence_def fmul_def fadd_def
          float_of_nat_def)
qed

text \<open>
  Counterexample to C7 as stated: \<open>beta\<close> gives no hit and \<open>missing\<close> does not exist, so the
  multi-database query over the two finds nothing and reports the confidence 0, where the
  formula gives \<open>min(0 \<times> 0.15 + 2 \<times> 0.1, 1.0) = 0.2\<close>.
\<close>

theorem no_hit_confidence_counterexample:
  "confidence (example_multi_reply [''beta'', ''missing'']) = 0
   \<and> length (sources (example_multi_reply [''beta'', ''missing''])) = 0
   \<and> multi_confidence (\<lambda>x. x) 0 (length [''beta'', ''missing'']) = 1 / 5"
  using example_query_beta_missing
  by (simp add: example_multi_reply_def query_multiple_databases_def multi_confidence_def
        fmul_def fadd_def float_of_nat_def case_prod_beta)

end
